theory Spec2Isabelle
  imports Complex_Main "HOL-Library.Sublist"
begin

section \<open>Values\<close>

text \<open>
  The page handles values of TypeScript type \<^verbatim>\<open>any\<close>: answers, configuration
  and the data of remote calls. They are JavaScript values as they come out of JSON.
  A JavaScript number is a binary64 value: a finite one is the rational it denotes
  (the two zeros are not told apart).
\<close>

datatype jsnum = NaN | PInf | NInf | Fin rat

datatype json =
    JNull
  | JBool bool
  | JNum jsnum
  | JStr string
  | JArr "json list"
  | JObj "(string \<times> json) list"

section \<open>Data model\<close>

text \<open>
  \<^verbatim>\<open>type Question\<close> and \<^verbatim>\<open>type Payload\<close> of \<^verbatim>\<open>page.tsx\<close>. An optional
  field (\<^verbatim>\<open>help?\<close>, \<^verbatim>\<open>config?\<close>, \<^verbatim>\<open>options?\<close>, \<^verbatim>\<open>table_rows?\<close>) is an
  \<open>option\<close>, \<open>None\<close> when it is undefined. A row index is a number.
\<close>

record choice =
  "value" :: string
  label :: string
  order :: int

record table_row =
  row_index :: jsnum
  row :: json

record question =
  code :: string
  type :: string
  qlabel :: string
  "help" :: "string option"
  config :: "json option"
  options :: "choice list option"
  answer :: json
  table_rows :: "table_row list option"

record form =
  id :: string
  status :: string
  company :: "string option"
  contact :: "json option"

record payload =
  form :: form
  questions :: "question list"

section \<open>The page's state\<close>

text \<open>
  The four \<^verbatim>\<open>useState\<close> cells of \<^verbatim>\<open>FormPage\<close>. A Payload is an object, and
  React compares the value an updater returns with the previous one by reference, so
  the state holds the address of the current snapshot in a store of snapshots:
  \<open>snapshots st ! a\<close> is the object at address \<open>a\<close>, and a new object gets the
  next free address. \<open>payload st = None\<close> is \<^verbatim>\<open>null\<close>.
\<close>

record page_state =
  snapshots :: "payload list"
  payload :: "nat option"
  loading :: bool
  submitting :: bool
  error :: "string option"

text \<open>\<^verbatim>\<open>Array.prototype.findIndex\<close>; \<open>None\<close> is the result \<^verbatim>\<open>-1\<close>.\<close>

fun findIndex :: "('a \<Rightarrow> bool) \<Rightarrow> 'a list \<Rightarrow> nat option" where
  "findIndex P [] = None"
| "findIndex P (x # xs) = (if P x then Some 0 else map_option Suc (findIndex P xs))"

text \<open>
  \<^verbatim>\<open>structuredClone(prev)\<close> followed by \<^verbatim>\<open>copy.questions[i].answer = next\<close>:
  the clone is a new object, equal to \<open>prev\<close> field by field, and the assignment
  writes into the clone only.
\<close>

definition clone_with_answer :: "payload \<Rightarrow> nat \<Rightarrow> json \<Rightarrow> payload" where
  "clone_with_answer prev i next =
     prev\<lparr>questions := (questions prev)[i := (questions prev ! i)\<lparr>answer := next\<rparr>]\<rparr>"

text \<open>
  \<^verbatim>\<open>mutateAnswer(code, next)\<close>: the updater given to \<^verbatim>\<open>setPayload\<close> returns
  \<^verbatim>\<open>prev\<close> itself when it is null or has no question with that code, and a
  modified clone otherwise. An address outside the store does not occur; the state is
  then left as it is.
\<close>

definition mutateAnswer :: "string \<Rightarrow> json \<Rightarrow> page_state \<Rightarrow> page_state" where
  "mutateAnswer c next st =
     (case payload st of
        None \<Rightarrow> st
      | Some a \<Rightarrow>
          if a < length (snapshots st) then
            (let prev = snapshots st ! a in
             case findIndex (\<lambda>q. code q = c) (questions prev) of
               None \<Rightarrow> st
             | Some i \<Rightarrow>
                 st\<lparr>snapshots := snapshots st @ [clone_with_answer prev i next],
                    payload := Some (length (snapshots st))\<rparr>)
          else st)"

section \<open>The remote boundary\<close>

text \<open>
  \<^verbatim>\<open>supabase.rpc(name, args)\<close> resolves to an object \<^verbatim>\<open>{data, error}\<close>. The four
  calls of the page are the constructors of \<open>rpc_call\<close>, with their arguments in the
  order of the source. \<open>failure r = None\<close> is a null \<^verbatim>\<open>error\<close>; the error object is
  kept as its message.
\<close>

datatype rpc_error = RpcError (message: string)

datatype rpc_call =
    GetFormPayload string string
  | UpsertAnswer string string json
  | UpsertTableRow string string jsnum json
  | SubmitForm string

record 'a rpc_response =
  data :: 'a
  failure :: "rpc_error option"

text \<open>
  \<^verbatim>\<open>upsertAnswer\<close> and \<^verbatim>\<open>upsertTableRow\<close> are async functions: each issues one
  call, awaits the response and throws the error object when there is one. The call
  and what happens at the response are separate definitions, since other handlers may
  run while the call is in flight. A thrown error is \<open>Inl\<close>.
\<close>

definition upsertAnswer_call :: "string \<Rightarrow> string \<Rightarrow> json \<Rightarrow> rpc_call" where
  "upsertAnswer_call formUUID c v = UpsertAnswer formUUID c v"

definition upsertAnswer_settle :: "'a rpc_response \<Rightarrow> rpc_error + unit" where
  "upsertAnswer_settle r = (case failure r of Some e \<Rightarrow> Inl e | None \<Rightarrow> Inr ())"

definition upsertTableRow_call :: "string \<Rightarrow> string \<Rightarrow> jsnum \<Rightarrow> json \<Rightarrow> rpc_call" where
  "upsertTableRow_call formUUID c rowIndex r = UpsertTableRow formUUID c rowIndex r"

definition upsertTableRow_settle :: "'a rpc_response \<Rightarrow> rpc_error + unit" where
  "upsertTableRow_settle r = (case failure r of Some e \<Rightarrow> Inl e | None \<Rightarrow> Inr ())"

section \<open>Multiple choice\<close>

text \<open>
  A JavaScript \<^verbatim>\<open>Set\<close> keeps its elements in insertion order and compares them with
  SameValueZero, as \<^verbatim>\<open>Array.prototype.includes\<close> does: primitive values by value,
  objects and arrays by reference. The elements of an answer are separate objects, so
  an array or an object is equal to no other element.
\<close>

fun same_value_zero :: "json \<Rightarrow> json \<Rightarrow> bool" where
  "same_value_zero JNull JNull = True"
| "same_value_zero (JBool a) (JBool b) = (a = b)"
| "same_value_zero (JNum a) (JNum b) = (a = b)"
| "same_value_zero (JStr a) (JStr b) = (a = b)"
| "same_value_zero _ _ = False"

definition Array_includes :: "json list \<Rightarrow> json \<Rightarrow> bool" where
  "Array_includes xs v = (\<exists>x \<in> set xs. same_value_zero x v)"

definition Set_add :: "json list \<Rightarrow> json \<Rightarrow> json list" where
  "Set_add s v = (if Array_includes s v then s else s @ [v])"

definition Set_delete :: "json list \<Rightarrow> json \<Rightarrow> json list" where
  "Set_delete s v = filter (\<lambda>x. \<not> same_value_zero x v) s"

definition new_Set :: "json list \<Rightarrow> json list" where
  "new_Set xs = fold (\<lambda>v s. Set_add s v) xs []"

text \<open>\<^verbatim>\<open>Array.isArray(q.answer) ? q.answer : []\<close>\<close>

definition answer_array :: "question \<Rightarrow> json list" where
  "answer_array q = (case answer q of JArr xs \<Rightarrow> xs | _ \<Rightarrow> [])"

text \<open>
  The checkbox of option \<open>opt\<close>: \<^verbatim>\<open>checked\<close> is what the box shows, and
  \<open>multi_select_toggle q opt c\<close> is the array \<^verbatim>\<open>arr\<close> that the change handler persists
  when the box is set to \<open>c\<close> (\<^verbatim>\<open>e.target.checked\<close>).
\<close>

definition checked :: "question \<Rightarrow> choice \<Rightarrow> bool" where
  "checked q opt = (case answer q of JArr xs \<Rightarrow> Array_includes xs (JStr (value opt)) | _ \<Rightarrow> False)"

definition multi_select_toggle :: "question \<Rightarrow> choice \<Rightarrow> bool \<Rightarrow> json" where
  "multi_select_toggle q opt c =
     (let next = new_Set (answer_array q);
          next' = (if c then Set_add next (JStr (value opt))
                   else Set_delete next (JStr (value opt)))
      in JArr next')"

text \<open>
  The boxes are rendered by \<^verbatim>\<open>(q.options || []).map\<close>, in the order of the options
  list; \<open>selected_options q\<close> are the options whose box is checked, in that order.
\<close>

definition selected_options :: "question \<Rightarrow> choice list" where
  "selected_options q = filter (checked q) (case options q of None \<Rightarrow> [] | Some os \<Rightarrow> os)"

text \<open>
  An answer list stands in the order of the options list when its values occur in
  the list of the option values, in that order.
\<close>

definition in_options_order :: "question \<Rightarrow> json list \<Rightarrow> bool" where
  "in_options_order q ys =
     subseq ys (map (\<lambda>opt. JStr (value opt)) (case options q of None \<Rightarrow> [] | Some os \<Rightarrow> os))"

section \<open>JavaScript numbers\<close>

text \<open>
  A finite number is the rational it denotes; arithmetic rounds the exact result to
  the nearest binary64 value, ties to even, and to an infinity beyond the largest
  finite value. \<open>floor_log b n\<close> is the largest \<open>k\<close> with \<open>b ^ k \<le> n\<close>.
\<close>

fun floor_log :: "nat \<Rightarrow> nat \<Rightarrow> nat" where
  "floor_log b n = (if b < 2 \<or> n < b then 0 else Suc (floor_log b (n div b)))"

declare floor_log.simps [simp del]

definition ceil_log :: "nat \<Rightarrow> nat \<Rightarrow> nat" where
  "ceil_log b n = (if n < 2 then 0 else Suc (floor_log b (n - 1)))"

definition pow_int :: "rat \<Rightarrow> int \<Rightarrow> rat" where
  "pow_int b e = (if 0 \<le> e then b ^ nat e else 1 / b ^ nat (- e))"

text \<open>For \<open>0 < a\<close>, the integer \<open>e\<close> with \<open>b ^ e \<le> a < b ^ (e + 1)\<close>.\<close>

definition floor_log_rat :: "nat \<Rightarrow> rat \<Rightarrow> int" where
  "floor_log_rat b a =
     (if 1 \<le> a then int (floor_log b (nat \<lfloor>a\<rfloor>))
      else - int (ceil_log b (nat (- \<lfloor>- (1 / a)\<rfloor>))))"

definition round_half_even :: "rat \<Rightarrow> int" where
  "round_half_even x =
     (if x - of_int \<lfloor>x\<rfloor> < 1 / 2 then \<lfloor>x\<rfloor>
      else if 1 / 2 < x - of_int \<lfloor>x\<rfloor> then \<lfloor>x\<rfloor> + 1
      else if even \<lfloor>x\<rfloor> then \<lfloor>x\<rfloor> else \<lfloor>x\<rfloor> + 1)"

text \<open>
  Rounding a magnitude \<open>a\<close> to binary64: a value in the binade of exponent \<open>e\<close> is a
  multiple of \<open>2 ^ (e - 52)\<close>; below \<open>2 ^ - 1022\<close> the spacing stays \<open>2 ^ - 1074\<close>.
\<close>

definition pack_double :: "bool \<Rightarrow> rat \<Rightarrow> jsnum" where
  "pack_double neg r =
     (if pow_int 2 1024 \<le> r then (if neg then NInf else PInf)
      else Fin (if neg then - r else r))"

definition round_to_ulp :: "bool \<Rightarrow> rat \<Rightarrow> rat \<Rightarrow> jsnum" where
  "round_to_ulp neg a ulp = pack_double neg (of_int (round_half_even (a / ulp)) * ulp)"

definition round_in_binade :: "bool \<Rightarrow> rat \<Rightarrow> int \<Rightarrow> jsnum" where
  "round_in_binade neg a e = round_to_ulp neg a (pow_int 2 (max e (- 1022) - 52))"

definition round_double :: "rat \<Rightarrow> jsnum" where
  "round_double q =
     (if q = 0 then Fin 0 else round_in_binade (q < 0) \<bar>q\<bar> (floor_log_rat 2 \<bar>q\<bar>))"

text \<open>The operators \<^verbatim>\<open>*\<close> and \<^verbatim>\<open>/\<close> on numbers, and \<^verbatim>\<open>Math.round\<close>.\<close>

fun js_times :: "jsnum \<Rightarrow> jsnum \<Rightarrow> jsnum" where
  "js_times (Fin a) (Fin b) = round_double (a * b)"
| "js_times NaN _ = NaN"
| "js_times _ NaN = NaN"
| "js_times (Fin a) PInf = (if a = 0 then NaN else if 0 < a then PInf else NInf)"
| "js_times (Fin a) NInf = (if a = 0 then NaN else if 0 < a then NInf else PInf)"
| "js_times PInf (Fin b) = (if b = 0 then NaN else if 0 < b then PInf else NInf)"
| "js_times NInf (Fin b) = (if b = 0 then NaN else if 0 < b then NInf else PInf)"
| "js_times PInf PInf = PInf"
| "js_times NInf NInf = PInf"
| "js_times PInf NInf = NInf"
| "js_times NInf PInf = NInf"

text \<open>
  Division by a finite number other than zero, which is the only division of the page
  (\<^verbatim>\<open>/ 100\<close>); a zero divisor gives \<open>NaN\<close> here.
\<close>

fun js_divide :: "jsnum \<Rightarrow> rat \<Rightarrow> jsnum" where
  "js_divide (Fin a) b = (if b = 0 then NaN else round_double (a / b))"
| "js_divide NaN b = NaN"
| "js_divide PInf b = (if b = 0 then NaN else if 0 < b then PInf else NInf)"
| "js_divide NInf b = (if b = 0 then NaN else if 0 < b then NInf else PInf)"

fun Math_round :: "jsnum \<Rightarrow> jsnum" where
  "Math_round (Fin a) = Fin (of_int \<lfloor>a + 1 / 2\<rfloor>)"
| "Math_round x = x"

text \<open>
  The operators \<^verbatim>\<open>+\<close> and \<^verbatim>\<open><\<close> on numbers, and \<^verbatim>\<open>Math.max\<close> of a list of
  numbers: \<open>NaN\<close> if one of them is, and the largest otherwise, starting from
  \<^verbatim>\<open>-Infinity\<close>.
\<close>

fun js_plus :: "jsnum \<Rightarrow> jsnum \<Rightarrow> jsnum" where
  "js_plus (Fin a) (Fin b) = round_double (a + b)"
| "js_plus NaN _ = NaN"
| "js_plus _ NaN = NaN"
| "js_plus PInf NInf = NaN"
| "js_plus NInf PInf = NaN"
| "js_plus PInf _ = PInf"
| "js_plus _ PInf = PInf"
| "js_plus NInf _ = NInf"
| "js_plus _ NInf = NInf"

fun js_less :: "jsnum \<Rightarrow> jsnum \<Rightarrow> bool" where
  "js_less (Fin a) (Fin b) = (a < b)"
| "js_less NaN _ = False"
| "js_less _ NaN = False"
| "js_less NInf NInf = False"
| "js_less NInf _ = True"
| "js_less PInf _ = False"
| "js_less (Fin a) PInf = True"
| "js_less (Fin a) NInf = False"

definition Math_max :: "jsnum list \<Rightarrow> jsnum" where
  "Math_max xs =
     (if NaN \<in> set xs then NaN
      else fold (\<lambda>x highest. if js_less highest x then x else highest) xs NInf)"

section \<open>Strings and numbers\<close>

text \<open>
  A string is a list of characters; a character beyond ASCII is its UTF-8 bytes.
  \<^verbatim>\<open>Number(s)\<close> on a string follows the grammar of numeric string literals: white
  space around the literal is dropped, the empty string is 0, a literal is a signed
  decimal (with optional fraction and exponent), \<^verbatim>\<open>Infinity\<close>, or an unsigned binary,
  octal or hexadecimal integer; any other text is \<open>NaN\<close>. White space is the
  characters U+0009 to U+000D, U+0020, U+00A0, U+1680, U+2000 to U+200A, U+2028,
  U+2029, U+202F, U+205F, U+3000 and U+FEFF, here in UTF-8.
\<close>

definition white_space :: "string list" where
  "white_space =
     [[CHR 0x09], [CHR 0x0A], [CHR 0x0B], [CHR 0x0C], [CHR 0x0D], [CHR 0x20],
      [CHR 0xC2, CHR 0xA0], [CHR 0xE1, CHR 0x9A, CHR 0x80],
      [CHR 0xE2, CHR 0x80, CHR 0x80], [CHR 0xE2, CHR 0x80, CHR 0x81],
      [CHR 0xE2, CHR 0x80, CHR 0x82], [CHR 0xE2, CHR 0x80, CHR 0x83],
      [CHR 0xE2, CHR 0x80, CHR 0x84], [CHR 0xE2, CHR 0x80, CHR 0x85],
      [CHR 0xE2, CHR 0x80, CHR 0x86], [CHR 0xE2, CHR 0x80, CHR 0x87],
      [CHR 0xE2, CHR 0x80, CHR 0x88], [CHR 0xE2, CHR 0x80, CHR 0x89],
      [CHR 0xE2, CHR 0x80, CHR 0x8A], [CHR 0xE2, CHR 0x80, CHR 0xA8],
      [CHR 0xE2, CHR 0x80, CHR 0xA9], [CHR 0xE2, CHR 0x80, CHR 0xAF],
      [CHR 0xE2, CHR 0x81, CHR 0x9F], [CHR 0xE3, CHR 0x80, CHR 0x80],
      [CHR 0xEF, CHR 0xBB, CHR 0xBF]]"

text \<open>\<open>strip_space ws s\<close> drops from the front of \<open>s\<close> every text of \<open>ws\<close>.\<close>

function strip_space :: "string list \<Rightarrow> string \<Rightarrow> string" where
  "strip_space ws s =
     (case find (\<lambda>w. w \<noteq> [] \<and> take (length w) s = w) ws of
        None \<Rightarrow> s
      | Some w \<Rightarrow> strip_space ws (drop (length w) s))"
  by pat_completeness auto
termination
proof (relation "measure (\<lambda>(ws, s). length s)")
  show "wf (measure (\<lambda>(ws, s). length s))"
    by simp
next
  fix ws :: "string list" and s w :: string
  assume "find (\<lambda>w. w \<noteq> [] \<and> take (length w) s = w) ws = Some w"
  then have w: "w \<noteq> []" "take (length w) s = w"
    by (auto simp: find_Some_iff)
  then have "s \<noteq> []"
    by auto
  with w(1) show "((ws, drop (length w) s), (ws, s)) \<in> measure (\<lambda>(ws, s). length s)"
    by simp
qed

declare strip_space.simps [simp del]

definition trim :: "string \<Rightarrow> string" where
  "trim s = rev (strip_space (map rev white_space) (rev (strip_space white_space s)))"

definition digit_val :: "char \<Rightarrow> nat option" where
  "digit_val c = map_of
     [(CHR ''0'', 0), (CHR ''1'', 1), (CHR ''2'', 2), (CHR ''3'', 3), (CHR ''4'', 4),
      (CHR ''5'', 5), (CHR ''6'', 6), (CHR ''7'', 7), (CHR ''8'', 8), (CHR ''9'', 9),
      (CHR ''a'', 10), (CHR ''b'', 11), (CHR ''c'', 12), (CHR ''d'', 13), (CHR ''e'', 14),
      (CHR ''f'', 15), (CHR ''A'', 10), (CHR ''B'', 11), (CHR ''C'', 12), (CHR ''D'', 13),
      (CHR ''E'', 14), (CHR ''F'', 15)] c"

definition is_digit :: "nat \<Rightarrow> char \<Rightarrow> bool" where
  "is_digit b c = (case digit_val c of None \<Rightarrow> False | Some d \<Rightarrow> d < b)"

text \<open>The value of a string of digits in base \<open>b\<close>; a literal has one digit at least.\<close>

fun digits_value :: "nat \<Rightarrow> nat \<Rightarrow> string \<Rightarrow> nat" where
  "digits_value b acc [] = acc"
| "digits_value b acc (c # cs) = digits_value b (b * acc + (case digit_val c of None \<Rightarrow> 0 | Some d \<Rightarrow> d)) cs"

definition parse_digits :: "nat \<Rightarrow> string \<Rightarrow> nat option" where
  "parse_digits b s =
     (if s \<noteq> [] \<and> list_all (is_digit b) s then Some (digits_value b 0 s) else None)"

text \<open>The exponent part: nothing, or \<^verbatim>\<open>e\<close> or \<^verbatim>\<open>E\<close>, an optional sign and digits.\<close>

definition parse_exponent :: "string \<Rightarrow> int option" where
  "parse_exponent s =
     (case s of
        [] \<Rightarrow> Some 0
      | c # r \<Rightarrow>
          if c = CHR ''e'' \<or> c = CHR ''E'' then
            (case r of
               [] \<Rightarrow> None
             | d # ds \<Rightarrow>
                 if d = CHR ''-'' then map_option (\<lambda>n. - int n) (parse_digits 10 ds)
                 else if d = CHR ''+'' then map_option int (parse_digits 10 ds)
                 else map_option int (parse_digits 10 r))
          else None)"

text \<open>
  An unsigned decimal literal: digits, then optionally a point and digits, then the
  exponent part, with a digit before or after the point.
\<close>

definition decimal_value :: "string \<Rightarrow> string \<Rightarrow> string \<Rightarrow> rat option" where
  "decimal_value ip fp ex =
     (if ip = [] \<and> fp = [] then None
      else case parse_exponent ex of
             None \<Rightarrow> None
           | Some e \<Rightarrow>
               Some (of_nat (digits_value 10 0 (ip @ fp)) * pow_int 10 (e - int (length fp))))"

definition parse_fraction :: "string \<Rightarrow> string \<Rightarrow> rat option" where
  "parse_fraction ip r =
     (case r of
        [] \<Rightarrow> decimal_value ip [] []
      | c # cs \<Rightarrow>
          if c = CHR ''.'' then
            decimal_value ip (takeWhile (is_digit 10) cs) (dropWhile (is_digit 10) cs)
          else decimal_value ip [] r)"

definition parse_unsigned_decimal :: "string \<Rightarrow> rat option" where
  "parse_unsigned_decimal s =
     parse_fraction (takeWhile (is_digit 10) s) (dropWhile (is_digit 10) s)"

definition signed_literal :: "bool \<Rightarrow> string \<Rightarrow> jsnum" where
  "signed_literal neg s =
     (if s = ''Infinity'' then (if neg then NInf else PInf)
      else case parse_unsigned_decimal s of
             None \<Rightarrow> NaN
           | Some q \<Rightarrow> round_double (if neg then - q else q))"

definition radix_literal :: "nat \<Rightarrow> string \<Rightarrow> jsnum" where
  "radix_literal b s =
     (case parse_digits b s of None \<Rightarrow> NaN | Some n \<Rightarrow> round_double (of_nat n))"

definition numeric_literal :: "string \<Rightarrow> jsnum" where
  "numeric_literal s =
     (case s of
        [] \<Rightarrow> Fin 0
      | c # r \<Rightarrow>
          if c = CHR ''-'' then signed_literal True r
          else if c = CHR ''+'' then signed_literal False r
          else if c = CHR ''0'' \<and> r \<noteq> [] \<and> hd r \<in> set ''xX'' then radix_literal 16 (tl r)
          else if c = CHR ''0'' \<and> r \<noteq> [] \<and> hd r \<in> set ''oO'' then radix_literal 8 (tl r)
          else if c = CHR ''0'' \<and> r \<noteq> [] \<and> hd r \<in> set ''bB'' then radix_literal 2 (tl r)
          else signed_literal False s)"

definition string_to_number :: "string \<Rightarrow> jsnum" where
  "string_to_number s = numeric_literal (trim s)"

section \<open>Numbers to strings\<close>

fun dec_digits :: "nat \<Rightarrow> string" where
  "dec_digits n =
     (if n < 10 then [''0123456789'' ! n]
      else dec_digits (n div 10) @ [''0123456789'' ! (n mod 10)])"

declare dec_digits.simps [simp del]

text \<open>
  \<^verbatim>\<open>Number.prototype.toString\<close> prints the shortest decimal that reads back as the
  same number: the least count \<open>k\<close> of digits for which there is an integer \<open>s\<close> of
  \<open>k\<close> digits with \<open>s * 10 ^ (n - k)\<close> rounding to \<open>x\<close>, and of two such \<open>s\<close> the
  nearer one. \<open>shortest_digits\<close> tries \<open>k\<close> and the counts above it; 17 digits
  tell any two binary64 values apart, so at 17 it takes the nearest digit string.
  The result is the digit string and \<open>n\<close>, the position of the decimal point.
\<close>

definition reads_back :: "rat \<Rightarrow> rat \<Rightarrow> int \<Rightarrow> bool" where
  "reads_back x scale s = (round_double (of_int s * scale) = Fin x)"

definition nearer :: "rat \<Rightarrow> rat \<Rightarrow> int \<Rightarrow> int" where
  "nearer x scale lo =
     (if x - of_int lo * scale < of_int (lo + 1) * scale - x then lo
      else if of_int (lo + 1) * scale - x < x - of_int lo * scale then lo + 1
      else if even lo then lo else lo + 1)"

definition candidate :: "rat \<Rightarrow> rat \<Rightarrow> int \<Rightarrow> int option" where
  "candidate x scale lo =
     (if reads_back x scale lo \<and> reads_back x scale (lo + 1) then Some (nearer x scale lo)
      else if reads_back x scale lo then Some lo
      else if reads_back x scale (lo + 1) then Some (lo + 1)
      else None)"

definition with_point :: "int \<Rightarrow> nat \<Rightarrow> int \<Rightarrow> string \<times> int" where
  "with_point n0 k s =
     (if s = 10 ^ k then (''1'', n0 + 1) else (dec_digits (nat s), n0))"

function shortest_digits :: "rat \<Rightarrow> int \<Rightarrow> nat \<Rightarrow> string \<times> int" where
  "shortest_digits x n0 k =
     (if 17 \<le> k then
        with_point n0 k (nearer x (pow_int 10 (n0 - int k)) \<lfloor>x / pow_int 10 (n0 - int k)\<rfloor>)
      else case candidate x (pow_int 10 (n0 - int k)) \<lfloor>x / pow_int 10 (n0 - int k)\<rfloor> of
             Some s \<Rightarrow> with_point n0 k s
           | None \<Rightarrow> shortest_digits x n0 (Suc k))"
  by pat_completeness auto
termination
  by (relation "measure (\<lambda>(x, n0, k). 17 - k)") auto

declare shortest_digits.simps [simp del]

definition exponent_text :: "int \<Rightarrow> string" where
  "exponent_text e = (if e < 0 then ''e-'' else ''e+'') @ dec_digits (nat \<bar>e\<bar>)"

definition layout_digits :: "string \<times> int \<Rightarrow> string" where
  "layout_digits dn =
     (let ds = fst dn; n = snd dn; k = int (length ds) in
      if k \<le> n \<and> n \<le> 21 then ds @ replicate (nat (n - k)) CHR ''0''
      else if 0 < n \<and> n \<le> 21 then take (nat n) ds @ ''.'' @ drop (nat n) ds
      else if - 6 < n \<and> n \<le> 0 then ''0.'' @ replicate (nat (- n)) CHR ''0'' @ ds
      else if k = 1 then ds @ exponent_text (n - 1)
      else take 1 ds @ ''.'' @ drop 1 ds @ exponent_text (n - 1))"

definition positive_to_string :: "rat \<Rightarrow> string" where
  "positive_to_string x = layout_digits (shortest_digits x (floor_log_rat 10 x + 1) 1)"

fun number_to_string :: "jsnum \<Rightarrow> string" where
  "number_to_string NaN = ''NaN''"
| "number_to_string PInf = ''Infinity''"
| "number_to_string NInf = ''-Infinity''"
| "number_to_string (Fin x) =
     (if x = 0 then ''0''
      else if x < 0 then ''-'' @ positive_to_string (- x)
      else positive_to_string x)"

text \<open>
  \<^verbatim>\<open>Number.prototype.toFixed(fd)\<close>: the integer \<open>n\<close> nearest to \<open>x * 10 ^ fd\<close> (the
  larger of two), printed with at least \<open>fd + 1\<close> digits and a point before the last
  \<open>fd\<close>; a number that is not finite, or of magnitude \<open>10 ^ 21\<close> and above, is printed
  as by \<^verbatim>\<open>toString\<close>.
\<close>

definition pad_left :: "nat \<Rightarrow> string \<Rightarrow> string" where
  "pad_left n s = replicate (n - length s) CHR ''0'' @ s"

definition fixed_digits :: "nat \<Rightarrow> string \<Rightarrow> string" where
  "fixed_digits fd m =
     (if fd = 0 then m else take (length m - fd) m @ ''.'' @ drop (length m - fd) m)"

definition fixed_magnitude :: "nat \<Rightarrow> rat \<Rightarrow> string" where
  "fixed_magnitude fd a =
     fixed_digits fd (pad_left (Suc fd) (dec_digits (nat \<lfloor>a * 10 ^ fd + 1 / 2\<rfloor>)))"

fun toFixed :: "nat \<Rightarrow> jsnum \<Rightarrow> string" where
  "toFixed fd (Fin x) =
     (if 10 ^ 21 \<le> \<bar>x\<bar> then number_to_string (Fin x)
      else if x < 0 then ''-'' @ fixed_magnitude fd (- x)
      else fixed_magnitude fd x)"
| "toFixed fd x = number_to_string x"

section \<open>Conversions of values\<close>

text \<open>
  Truthiness, \<^verbatim>\<open>ToString\<close> and \<^verbatim>\<open>ToNumber\<close> of a value. An array converts to the
  texts of its elements joined by commas, null elements as the empty text, and an
  object to \<^verbatim>\<open>[object Object]\<close>. \<open>get_prop v k\<close> reads the property \<open>k\<close>:
  \<open>None\<close> is \<^verbatim>\<open>undefined\<close>, which is what reading one of the page's keys from a
  primitive value or an array gives. The keys of an object are distinct.
\<close>

fun truthy :: "json \<Rightarrow> bool" where
  "truthy JNull = False"
| "truthy (JBool b) = b"
| "truthy (JNum n) = (n \<noteq> NaN \<and> n \<noteq> Fin 0)"
| "truthy (JStr s) = (s \<noteq> [])"
| "truthy (JArr xs) = True"
| "truthy (JObj kvs) = True"

fun get_prop :: "json \<Rightarrow> string \<Rightarrow> json option" where
  "get_prop (JObj kvs) k = map_of kvs k"
| "get_prop _ k = None"

fun join :: "string \<Rightarrow> string list \<Rightarrow> string" where
  "join sep [] = []"
| "join sep [s] = s"
| "join sep (s # t # ss) = s @ sep @ join sep (t # ss)"

fun to_string :: "json \<Rightarrow> string" where
  "to_string JNull = ''null''"
| "to_string (JBool b) = (if b then ''true'' else ''false'')"
| "to_string (JNum n) = number_to_string n"
| "to_string (JStr s) = s"
| "to_string (JArr xs) = join '','' (map (\<lambda>x. if x = JNull then [] else to_string x) xs)"
| "to_string (JObj kvs) = ''[object Object]''"

fun to_number :: "json \<Rightarrow> jsnum" where
  "to_number JNull = Fin 0"
| "to_number (JBool b) = (if b then Fin 1 else Fin 0)"
| "to_number (JNum n) = n"
| "to_number (JStr s) = string_to_number s"
| "to_number (JArr xs) = string_to_number (to_string (JArr xs))"
| "to_number (JObj kvs) = string_to_number (to_string (JObj kvs))"

section \<open>The table editor\<close>

text \<open>
  \<^verbatim>\<open>TableEditor\<close> keeps one state cell, \<^verbatim>\<open>localRows\<close>. In \<^verbatim>\<open>addRow\<close> the index
  is \<^verbatim>\<open>localRows.length ? Math.max(...localRows.map((r) => r.row_index)) + 1 : 0\<close>,
  computed on numbers: the sum is rounded as every sum is.
\<close>

definition addRow_idx :: "table_row list \<Rightarrow> jsnum" where
  "addRow_idx localRows =
     (if length localRows \<noteq> 0 then js_plus (Math_max (map row_index localRows)) (Fin 1)
      else Fin 0)"

definition addRow_newRow :: "table_row list \<Rightarrow> table_row" where
  "addRow_newRow localRows = \<lparr>row_index = addRow_idx localRows, row = JObj []\<rparr>"

text \<open>
  \<^verbatim>\<open>addRow\<close> up to its \<^verbatim>\<open>await\<close>: the call \<^verbatim>\<open>onSave(code, idx, newRow.row)\<close>, where
  \<^verbatim>\<open>onSave\<close> is \<^verbatim>\<open>upsertTableRow\<close>.
\<close>

definition addRow_call :: "string \<Rightarrow> string \<Rightarrow> table_row list \<Rightarrow> rpc_call" where
  "addRow_call formUUID c localRows =
     upsertTableRow_call formUUID c (addRow_idx localRows) (row (addRow_newRow localRows))"

text \<open>
  \<^verbatim>\<open>addRow\<close> after the \<^verbatim>\<open>await\<close>: when \<^verbatim>\<open>onSave\<close> threw, the function ends with
  that error and the line \<^verbatim>\<open>setLocalRows((prev) => [...prev, newRow])\<close> is not
  reached. \<open>newRow\<close> was built from the draft the editor was rendered with when the
  button was clicked; \<open>prev\<close> is the draft at the time of the response. The first
  component of the result is the error thrown, if any.
\<close>

definition addRow_resume ::
  "table_row \<Rightarrow> 'a rpc_response \<Rightarrow> table_row list \<Rightarrow> rpc_error option \<times> table_row list" where
  "addRow_resume newRow r prev =
     (case upsertTableRow_settle r of
        Inl e \<Rightarrow> (Some e, prev)
      | Inr _ \<Rightarrow> (None, prev @ [newRow]))"

text \<open>The whole of \<^verbatim>\<open>addRow\<close> when nothing else runs before the response arrives.\<close>

definition addRow ::
  "(rpc_call \<Rightarrow> unit rpc_response) \<Rightarrow> string \<Rightarrow> string \<Rightarrow> table_row list
     \<Rightarrow> rpc_call list \<times> rpc_error option \<times> table_row list" where
  "addRow remote formUUID c localRows =
     (let call = addRow_call formUUID c localRows;
          (thrown, rows') = addRow_resume (addRow_newRow localRows) (remote call) localRows
      in ([call], thrown, rows'))"


section \<open>The value codec\<close>

text \<open>
  What the change handlers of \<^verbatim>\<open>renderQuestion\<close> compute from the event. An event
  is a click on one of the two radio inputs of a boolean question, a change of the
  \<^verbatim>\<open>value\<close> of a select, input or textarea, or a change of the box of one option.
\<close>

datatype dom_event = PickSim | PickNao | Input string | Tick choice bool

text \<open>\<^verbatim>\<open>String.prototype.replace\<close> with a string pattern replaces the first match.\<close>

fun replace_first :: "char \<Rightarrow> string \<Rightarrow> string \<Rightarrow> string" where
  "replace_first c r [] = []"
| "replace_first c r (x # xs) = (if x = c then r @ xs else x # replace_first c r xs)"

text \<open>
  The currency input: \<^verbatim>\<open>clean = value.replace(/\./g, "").replace(",", ".")\<close>,
  \<^verbatim>\<open>num = Number(clean || 0)\<close>, and the object built from
  \<^verbatim>\<open>Math.round(num * 100)\<close> and \<^verbatim>\<open>q.config?.currency || "BRL"\<close>.
\<close>

definition currency_clean :: "string \<Rightarrow> string" where
  "currency_clean s = replace_first CHR '','' ''.'' (filter (\<lambda>c. c \<noteq> CHR ''.'') s)"

definition currency_num :: "string \<Rightarrow> jsnum" where
  "currency_num s =
     (if currency_clean s = [] then Fin 0 else string_to_number (currency_clean s))"

definition config_currency :: "question \<Rightarrow> json" where
  "config_currency q =
     (case config q of
        None \<Rightarrow> JStr ''BRL''
      | Some cfg \<Rightarrow>
          (case get_prop cfg ''currency'' of
             None \<Rightarrow> JStr ''BRL''
           | Some v \<Rightarrow> if truthy v then v else JStr ''BRL''))"

definition currency_payload :: "question \<Rightarrow> string \<Rightarrow> json" where
  "currency_payload q s =
     JObj [(''amount_cents'', JNum (Math_round (js_times (currency_num s) (Fin 100)))),
           (''currency'', config_currency q)]"

text \<open>
  The text shown in the currency input:
  \<^verbatim>\<open>(q.answer && q.answer.amount_cents) ? (q.answer.amount_cents / 100).toFixed(2) : ""\<close>
\<close>

definition currency_amt :: "question \<Rightarrow> string" where
  "currency_amt q =
     (if truthy (answer q) then
        (case get_prop (answer q) ''amount_cents'' of
           None \<Rightarrow> []
         | Some cents \<Rightarrow>
             if truthy cents then toFixed 2 (js_divide (to_number cents) 100) else [])
      else [])"

text \<open>
  The value a change handler passes to \<^verbatim>\<open>upsertAnswer\<close>, by the \<^verbatim>\<open>switch\<close> on
  \<^verbatim>\<open>q.type\<close>. \<open>None\<close>: the widget of that type has no handler for the event; the
  attachment and table widgets and the fallback for other types have none at all.
\<close>

definition onChange_value :: "question \<Rightarrow> dom_event \<Rightarrow> json option" where
  "onChange_value q ev =
     (if type q = ''boolean'' then
        (case ev of PickSim \<Rightarrow> Some (JBool True) | PickNao \<Rightarrow> Some (JBool False) | _ \<Rightarrow> None)
      else if type q = ''single_select'' then
        (case ev of Input s \<Rightarrow> Some (JStr s) | _ \<Rightarrow> None)
      else if type q = ''multi_select'' then
        (case ev of
           Tick opt c \<Rightarrow>
             if opt \<in> set (case options q of None \<Rightarrow> [] | Some os \<Rightarrow> os)
             then Some (multi_select_toggle q opt c) else None
         | _ \<Rightarrow> None)
      else if type q = ''date'' then
        (case ev of Input s \<Rightarrow> Some (JStr s) | _ \<Rightarrow> None)
      else if type q = ''currency'' then
        (case ev of Input s \<Rightarrow> Some (currency_payload q s) | _ \<Rightarrow> None)
      else if type q = ''text'' then
        (case ev of Input s \<Rightarrow> Some (JStr s) | _ \<Rightarrow> None)
      else if type q = ''number'' then
        (case ev of
           Input s \<Rightarrow> Some (if s = [] then JNull else JNum (string_to_number s))
         | _ \<Rightarrow> None)
      else None)"

text \<open>
  The value passed to \<^verbatim>\<open>mutateAnswer\<close> after the \<^verbatim>\<open>await\<close>. The select, date and
  text handlers read \<^verbatim>\<open>e.target.value\<close> again at that point (\<open>now\<close> is what the
  element holds then); the other handlers pass the value computed before the call.
\<close>

definition onChange_commit_value :: "question \<Rightarrow> json \<Rightarrow> string \<Rightarrow> json" where
  "onChange_commit_value q v now =
     (if type q = ''single_select'' \<or> type q = ''date'' \<or> type q = ''text'' then JStr now
      else v)"

section \<open>Answer synchronisation\<close>

text \<open>
  A change handler is \<^verbatim>\<open>await upsertAnswer(q.code, v); mutateAnswer(q.code, v')\<close>.
  \<open>onChange_call\<close> is the remote call it issues. \<open>onChange_resume\<close> is the rest of
  the handler, run on the state of the page at the time of the response: when
  \<^verbatim>\<open>upsertAnswer\<close> throws, the handler ends with that error before \<^verbatim>\<open>mutateAnswer\<close>.
  The first component of the result is the error thrown, if any.
\<close>

definition onChange_call :: "string \<Rightarrow> question \<Rightarrow> json \<Rightarrow> rpc_call" where
  "onChange_call formUUID q v = upsertAnswer_call formUUID (code q) v"

definition onChange_resume ::
  "question \<Rightarrow> json \<Rightarrow> string \<Rightarrow> 'a rpc_response \<Rightarrow> page_state
     \<Rightarrow> rpc_error option \<times> page_state" where
  "onChange_resume q v now r st =
     (case upsertAnswer_settle r of
        Inl e \<Rightarrow> (Some e, st)
      | Inr _ \<Rightarrow> (None, mutateAnswer (code q) (onChange_commit_value q v now) st))"

text \<open>
  A whole change handler, when nothing else runs before the response arrives: the
  calls issued, the error thrown and the state of the page afterwards.
\<close>

definition onChange ::
  "(rpc_call \<Rightarrow> unit rpc_response) \<Rightarrow> string \<Rightarrow> question \<Rightarrow> dom_event \<Rightarrow> string
     \<Rightarrow> page_state \<Rightarrow> rpc_call list \<times> rpc_error option \<times> page_state" where
  "onChange remote formUUID q ev now st =
     (case onChange_value q ev of
        None \<Rightarrow> ([], None, st)
      | Some v \<Rightarrow>
          (let call = onChange_call formUUID q v;
               (thrown, st') = onChange_resume q v now (remote call) st
           in ([call], thrown, st')))"

section \<open>Loading and submitting\<close>

text \<open>\<^verbatim>\<open>setPayload(data)\<close> with the data of a response: a new object, or null.\<close>

definition setPayload :: "payload option \<Rightarrow> page_state \<Rightarrow> page_state" where
  "setPayload d st =
     (case d of
        None \<Rightarrow> st\<lparr>payload := None\<rparr>
      | Some p \<Rightarrow> st\<lparr>snapshots := snapshots st @ [p], payload := Some (length (snapshots st))\<rparr>)"

text \<open>
  The effect that loads the form: nothing for an empty \<^verbatim>\<open>formUUID\<close>; otherwise
  \<^verbatim>\<open>setLoading(true)\<close> and the call, and at the response \<^verbatim>\<open>setError\<close> or
  \<^verbatim>\<open>setPayload\<close>, then \<^verbatim>\<open>setLoading(false)\<close>.
\<close>

definition load_begin :: "string \<Rightarrow> string \<Rightarrow> page_state \<Rightarrow> page_state \<times> rpc_call option" where
  "load_begin formUUID lang st =
     (if formUUID = [] then (st, None)
      else (st\<lparr>loading := True\<rparr>, Some (GetFormPayload formUUID lang)))"

definition load_resume :: "payload option rpc_response \<Rightarrow> page_state \<Rightarrow> page_state" where
  "load_resume r st =
     (case failure r of
        Some e \<Rightarrow> st\<lparr>error := Some (message e)\<rparr>
      | None \<Rightarrow> setPayload (data r) st)\<lparr>loading := False\<rparr>"

text \<open>
  \<^verbatim>\<open>handleSubmit\<close> in its three parts: up to the first \<^verbatim>\<open>await\<close>; from the response
  of \<^verbatim>\<open>submit_form\<close> to the end or to the second \<^verbatim>\<open>await\<close>; and after the response
  of the second \<^verbatim>\<open>get_form_payload\<close>. The second part gives the new state, the texts
  passed to \<^verbatim>\<open>alert\<close> and the call it issues, if any.
\<close>

definition handleSubmit_begin :: "string \<Rightarrow> page_state \<Rightarrow> page_state \<times> rpc_call" where
  "handleSubmit_begin formUUID st = (st\<lparr>submitting := True\<rparr>, SubmitForm formUUID)"

definition missing_required_text :: "json \<Rightarrow> string" where
  "missing_required_text d =
     (case get_prop d ''missing_required'' of
        None \<Rightarrow> ''?''
      | Some v \<Rightarrow> if v = JNull then ''?'' else to_string v)"

text \<open>\<^verbatim>\<open>data?.ok\<close> as a condition.\<close>

definition data_ok :: "json \<Rightarrow> bool" where
  "data_ok d = (case get_prop d ''ok'' of None \<Rightarrow> False | Some v \<Rightarrow> truthy v)"

definition handleSubmit_resume ::
  "string \<Rightarrow> string \<Rightarrow> json rpc_response \<Rightarrow> page_state
     \<Rightarrow> page_state \<times> string list \<times> rpc_call option" where
  "handleSubmit_resume formUUID lang r st =
     (case failure r of
        Some e \<Rightarrow> (st\<lparr>submitting := False\<rparr>, [''Erro: '' @ message e], None)
      | None \<Rightarrow>
          if data_ok (data r) then
            (st\<lparr>submitting := False\<rparr>,
             [''Formul'' @ [CHR 0xC3, CHR 0xA1] @ ''rio enviado!''],
             Some (GetFormPayload formUUID lang))
          else
            (st\<lparr>submitting := False\<rparr>,
             [''Campos obrigat'' @ [CHR 0xC3, CHR 0xB3] @ ''rios faltando: ''
                @ missing_required_text (data r)],
             None))"

definition handleSubmit_refetched :: "payload option rpc_response \<Rightarrow> page_state \<Rightarrow> page_state" where
  "handleSubmit_refetched res st =
     (case failure res of None \<Rightarrow> setPayload (data res) st | Some e \<Rightarrow> st)"


section \<open>What the page shows\<close>

text \<open>
  The three early returns of \<^verbatim>\<open>FormPage\<close> and the form itself. An empty error text
  is falsy and does not stop the rendering. The submit button is rendered with
  \<^verbatim>\<open>disabled={submitting || payload.form.status === "submitted"}\<close>.
\<close>

datatype view = Loading | ErrorView string | NoData | FormView payload

definition current_payload :: "page_state \<Rightarrow> payload option" where
  "current_payload st =
     (case payload st of
        None \<Rightarrow> None
      | Some a \<Rightarrow> if a < length (snapshots st) then Some (snapshots st ! a) else None)"

definition render_payload :: "page_state \<Rightarrow> view" where
  "render_payload st = (case current_payload st of None \<Rightarrow> NoData | Some p \<Rightarrow> FormView p)"

definition render :: "page_state \<Rightarrow> view" where
  "render st =
     (if loading st then Loading
      else case error st of
             None \<Rightarrow> render_payload st
           | Some e \<Rightarrow> if e \<noteq> [] then ErrorView e else render_payload st)"

definition submit_disabled :: "page_state \<Rightarrow> payload \<Rightarrow> bool" where
  "submit_disabled st p = (submitting st \<or> status (form p) = ''submitted'')"

section \<open>The page as a transition system\<close>

text \<open>
  One session of the page: its state, the handlers waiting for a response, the remote
  calls issued so far and the alerts shown so far. Responses arrive in any order and
  with any content. Between two events the page is rendered from its current state,
  so a widget takes an event only when it is on the page, and a disabled button takes
  no click.
\<close>

datatype pending = PLoad | PEdit question json | PSubmit | PRefetch

record session =
  page :: page_state
  inflight :: "pending list"
  issued :: "rpc_call list"
  alerts :: "string list"

definition init_page :: page_state where
  "init_page = \<lparr>snapshots = [], payload = None, loading = True, submitting = False,
     error = None\<rparr>"

definition mount :: "string \<Rightarrow> string \<Rightarrow> session" where
  "mount formUUID lang =
     (case load_begin formUUID lang init_page of
        (st, None) \<Rightarrow> \<lparr>page = st, inflight = [], issued = [], alerts = []\<rparr>
      | (st, Some call) \<Rightarrow> \<lparr>page = st, inflight = [PLoad], issued = [call], alerts = []\<rparr>)"

inductive step :: "string \<Rightarrow> string \<Rightarrow> session \<Rightarrow> session \<Rightarrow> bool"
  for formUUID lang :: string
where
  load_response:
    "PLoad \<in> set (inflight s) \<Longrightarrow>
     step formUUID lang s
       (s\<lparr>page := load_resume r (page s), inflight := remove1 PLoad (inflight s)\<rparr>)"
| edit:
    "render (page s) = FormView p \<Longrightarrow> q \<in> set (questions p) \<Longrightarrow>
     onChange_value q ev = Some v \<Longrightarrow>
     step formUUID lang s
       (s\<lparr>inflight := inflight s @ [PEdit q v],
          issued := issued s @ [onChange_call formUUID q v]\<rparr>)"
| edit_response:
    "PEdit q v \<in> set (inflight s) \<Longrightarrow>
     step formUUID lang s
       (s\<lparr>page := snd (onChange_resume q v now (r :: unit rpc_response) (page s)),
          inflight := remove1 (PEdit q v) (inflight s)\<rparr>)"
| click_submit:
    "render (page s) = FormView p \<Longrightarrow> \<not> submit_disabled (page s) p \<Longrightarrow>
     step formUUID lang s
       (s\<lparr>page := fst (handleSubmit_begin formUUID (page s)),
          inflight := inflight s @ [PSubmit],
          issued := issued s @ [snd (handleSubmit_begin formUUID (page s))]\<rparr>)"
| submit_response:
    "PSubmit \<in> set (inflight s) \<Longrightarrow>
     handleSubmit_resume formUUID lang r (page s) = (st', msgs, next) \<Longrightarrow>
     step formUUID lang s
       (s\<lparr>page := st',
          inflight := remove1 PSubmit (inflight s) @ (case next of None \<Rightarrow> [] | Some c \<Rightarrow> [PRefetch]),
          issued := issued s @ (case next of None \<Rightarrow> [] | Some c \<Rightarrow> [c]),
          alerts := alerts s @ msgs\<rparr>)"
| refetch_response:
    "PRefetch \<in> set (inflight s) \<Longrightarrow>
     step formUUID lang s
       (s\<lparr>page := handleSubmit_refetched r (page s),
          inflight := remove1 PRefetch (inflight s)\<rparr>)"

definition reachable :: "string \<Rightarrow> string \<Rightarrow> session \<Rightarrow> bool" where
  "reachable formUUID lang s = (step formUUID lang)\<^sup>*\<^sup>* (mount formUUID lang) s"

text \<open>The calls of \<^verbatim>\<open>submit_form\<close> among the calls issued.\<close>

fun is_submit_call :: "rpc_call \<Rightarrow> bool" where
  "is_submit_call (SubmitForm f) = True"
| "is_submit_call _ = False"

definition submit_calls :: "session \<Rightarrow> rpc_call list" where
  "submit_calls s = filter is_submit_call (issued s)"

text \<open>
  The invariant behind the guard of the submit button: exactly one \<^verbatim>\<open>handleSubmit\<close>
  waits for the response of \<^verbatim>\<open>submit_form\<close> while \<^verbatim>\<open>submitting\<close> is set, and none
  otherwise.
\<close>

definition submit_in_flight :: "session \<Rightarrow> bool" where
  "submit_in_flight s = (count_list (inflight s) PSubmit = (if submitting (page s) then 1 else 0))"

section \<open>Sample data\<close>

text \<open>A small form with one question of each kind that the examples below use.\<close>

definition sample_form :: form where
  "sample_form = \<lparr>id = ''f-1'', status = ''draft'', company = Some ''Acme'', contact = None\<rparr>"

definition sample_boolean :: question where
  "sample_boolean = \<lparr>code = ''q_bool'', type = ''boolean'', qlabel = ''Has policy'',
     help = None, config = None, options = None, answer = JNull, table_rows = None\<rparr>"

definition sample_text :: question where
  "sample_text = \<lparr>code = ''q_text'', type = ''text'', qlabel = ''Notes'',
     help = Some ''free text'', config = None, options = None, answer = JStr ''abc'',
     table_rows = None\<rparr>"

definition sample_payload :: payload where
  "sample_payload = \<lparr>form = sample_form, questions = [sample_boolean, sample_text]\<rparr>"

definition sample_state :: page_state where
  "sample_state = \<lparr>snapshots = [sample_payload], payload = Some 0, loading = False,
     submitting = False, error = None\<rparr>"

definition sample_options :: "choice list" where
  "sample_options = [\<lparr>value = ''a'', label = ''Alpha'', order = 1\<rparr>,
     \<lparr>value = ''b'', label = ''Beta'', order = 2\<rparr>,
     \<lparr>value = ''c'', label = ''Gamma'', order = 3\<rparr>]"

definition sample_multi :: question where
  "sample_multi = \<lparr>code = ''q_multi'', type = ''multi_select'', qlabel = ''Lines'',
     help = None, config = None, options = Some sample_options,
     answer = JArr [JStr ''c'', JStr ''a''], table_rows = None\<rparr>"

definition sample_multi_ac :: question where
  "sample_multi_ac = sample_multi\<lparr>answer := JArr [JStr ''a'', JStr ''c'']\<rparr>"

definition sample_currency :: question where
  "sample_currency = \<lparr>code = ''q_money'', type = ''currency'', qlabel = ''Revenue'',
     help = None, config = None, options = None, answer = JNull, table_rows = None\<rparr>"

definition sample_failure :: "unit rpc_response" where
  "sample_failure = \<lparr>data = (), failure = Some (RpcError ''timeout'')\<rparr>"

definition sample_success :: "unit rpc_response" where
  "sample_success = \<lparr>data = (), failure = None\<rparr>"

definition sample_not_ok :: "json rpc_response" where
  "sample_not_ok = \<lparr>data = JObj [(''ok'', JBool False), (''missing_required'', JNum (Fin 2))],
     failure = None\<rparr>"

definition sample_rows :: "table_row list" where
  "sample_rows = [\<lparr>row_index = Fin 0, row = JObj [(''name'', JStr ''Acme'')]\<rparr>]"

definition sample_loaded :: session where
  "sample_loaded = \<lparr>page = sample_state, inflight = [],
     issued = [GetFormPayload ''f-1'' ''pt-BR''], alerts = []\<rparr>"

definition sample_submitting :: session where
  "sample_submitting = \<lparr>page = sample_state\<lparr>submitting := True\<rparr>, inflight = [PSubmit],
     issued = [GetFormPayload ''f-1'' ''pt-BR'', SubmitForm ''f-1''], alerts = []\<rparr>"

definition sample_rejected :: session where
  "sample_rejected = \<lparr>page = sample_state, inflight = [],
     issued = [GetFormPayload ''f-1'' ''pt-BR'', SubmitForm ''f-1''],
     alerts = [''Campos obrigat'' @ [CHR 0xC3, CHR 0xB3] @ ''rios faltando: 2'']\<rparr>"

section \<open>Properties of \<open>mutateAnswer\<close>\<close>

lemma findIndex_None: "findIndex P xs = None \<longleftrightarrow> (\<forall>x \<in> set xs. \<not> P x)"
  by (induction xs) auto

lemma findIndex_Some:
  "findIndex P xs = Some i \<Longrightarrow> i < length xs \<and> P (xs ! i) \<and> (\<forall>j < i. \<not> P (xs ! j))"
proof (induction xs arbitrary: i)
  case Nil
  then show ?case by simp
next
  case (Cons x xs)
  show ?case
  proof (cases "P x")
    case True
    with Cons.prems show ?thesis by simp
  next
    case False
    with Cons.prems obtain k where k: "findIndex P xs = Some k" "i = Suc k"
      by auto
    from Cons.IH [OF k(1)] have ih: "k < length xs" "P (xs ! k)" "\<forall>j < k. \<not> P (xs ! j)"
      by auto
    have "\<not> P ((x # xs) ! j)" if "j < i" for j
      using that False ih(3) k(2) by (cases j) auto
    with ih k(2) show ?thesis by simp
  qed
qed

text \<open>
  C7. When no question of the current Payload has the given code, \<open>mutateAnswer\<close>
  leaves the whole state as it was: the state still holds the same address (the very
  same object, not a copy), no object was allocated, and there is no failing branch.
  The same holds when the Payload is null.
\<close>

theorem mutateAnswer_absent_code_same_reference:
  assumes "payload st = Some a" and "a < length (snapshots st)"
    and "c \<notin> code ` set (questions (snapshots st ! a))"
  shows "mutateAnswer c v st = st \<and> payload (mutateAnswer c v st) = Some a
    \<and> snapshots (mutateAnswer c v st) = snapshots st"
proof -
  from assms(3) have "findIndex (\<lambda>q. code q = c) (questions (snapshots st ! a)) = None"
    by (auto simp: findIndex_None)
  with assms(1,2) have "mutateAnswer c v st = st"
    by (simp add: mutateAnswer_def)
  with assms(1) show ?thesis by simp
qed

theorem mutateAnswer_absent_code_witness:
  "payload sample_state = Some 0 \<and> 0 < length (snapshots sample_state)
   \<and> ''q_gone'' \<notin> code ` set (questions (snapshots sample_state ! 0))
   \<and> mutateAnswer ''q_gone'' (JBool True) sample_state = sample_state"
  using mutateAnswer_absent_code_same_reference [of sample_state 0 "''q_gone''" "JBool True"]
  by (simp add: sample_state_def sample_payload_def sample_boolean_def sample_text_def)

text \<open>
  C6. When a question of the current Payload has the given code, \<open>mutateAnswer\<close>
  stores a new Payload object (a fresh address; the previous snapshot stays in the store
  as it was). In the new Payload the form metadata is unchanged and the question list
  is the old one with the answer field of the first question of that code replaced:
  every other question, and every other field of that question, is as before. The
  other cells of the page's state are untouched.
\<close>

theorem mutateAnswer_replaces_exactly_answer:
  assumes "payload st = Some a" and "a < length (snapshots st)"
    and "c \<in> code ` set (questions (snapshots st ! a))"
  shows "\<exists>i. i < length (questions (snapshots st ! a))
    \<and> code (questions (snapshots st ! a) ! i) = c
    \<and> (\<forall>j < i. code (questions (snapshots st ! a) ! j) \<noteq> c)
    \<and> payload (mutateAnswer c v st) = Some (length (snapshots st))
    \<and> take (length (snapshots st)) (snapshots (mutateAnswer c v st)) = snapshots st
    \<and> form (snapshots (mutateAnswer c v st) ! length (snapshots st)) = form (snapshots st ! a)
    \<and> questions (snapshots (mutateAnswer c v st) ! length (snapshots st)) =
        (questions (snapshots st ! a))
          [i := (questions (snapshots st ! a) ! i)\<lparr>answer := v\<rparr>]
    \<and> answer (questions (snapshots (mutateAnswer c v st) ! length (snapshots st)) ! i) = v
    \<and> loading (mutateAnswer c v st) = loading st
    \<and> submitting (mutateAnswer c v st) = submitting st
    \<and> error (mutateAnswer c v st) = error st"
proof -
  let ?qs = "questions (snapshots st ! a)"
  from assms(3) have "findIndex (\<lambda>q. code q = c) ?qs \<noteq> None"
    by (auto simp: findIndex_None)
  then obtain i where i: "findIndex (\<lambda>q. code q = c) ?qs = Some i"
    by auto
  from findIndex_Some [OF i]
  have found: "i < length ?qs" "code (?qs ! i) = c" "\<forall>j < i. code (?qs ! j) \<noteq> c"
    by auto
  from assms(1,2) i
  have m: "mutateAnswer c v st =
      st\<lparr>snapshots := snapshots st @ [clone_with_answer (snapshots st ! a) i v],
         payload := Some (length (snapshots st))\<rparr>"
    by (simp add: mutateAnswer_def)
  from found(1) have "answer (?qs[i := (?qs ! i)\<lparr>answer := v\<rparr>] ! i) = v"
    by simp
  with found show ?thesis
    unfolding m by (intro exI [of _ i]) (simp add: clone_with_answer_def)
qed

theorem mutateAnswer_replaces_answer_witness:
  "payload sample_state = Some 0 \<and> 0 < length (snapshots sample_state)
   \<and> ''q_text'' \<in> code ` set (questions (snapshots sample_state ! 0))
   \<and> payload (mutateAnswer ''q_text'' (JStr ''xyz'') sample_state) = Some 1
   \<and> questions (snapshots (mutateAnswer ''q_text'' (JStr ''xyz'') sample_state) ! 1) =
       [sample_boolean, sample_text\<lparr>answer := JStr ''xyz''\<rparr>]"
proof -
  have h: "payload sample_state = Some 0" "0 < length (snapshots sample_state)"
    "''q_text'' \<in> code ` set (questions (snapshots sample_state ! 0))"
    by (simp_all add: sample_state_def sample_payload_def sample_boolean_def sample_text_def)
  from mutateAnswer_replaces_exactly_answer [OF h, of "JStr ''xyz''"]
  obtain i where i: "i < length (questions (snapshots sample_state ! 0))"
    "code (questions (snapshots sample_state ! 0) ! i) = ''q_text''"
    "payload (mutateAnswer ''q_text'' (JStr ''xyz'') sample_state)
       = Some (length (snapshots sample_state))"
    "questions (snapshots (mutateAnswer ''q_text'' (JStr ''xyz'') sample_state)
        ! length (snapshots sample_state)) =
     (questions (snapshots sample_state ! 0))
       [i := (questions (snapshots sample_state ! 0) ! i)\<lparr>answer := JStr ''xyz''\<rparr>]"
    by blast
  from i(1,2) have "i = 1"
    by (cases i) (simp_all add: sample_state_def sample_payload_def sample_boolean_def
        sample_text_def)
  with i(3,4) h show ?thesis
    by (simp add: sample_state_def sample_payload_def)
qed

section \<open>Evaluating numbers\<close>

lemma floor_rat_numeral_div:
  "\<lfloor>numeral a / numeral b :: rat\<rfloor> = numeral a div numeral b"
  "\<lfloor>- (numeral a / numeral b) :: rat\<rfloor> = - numeral a div numeral b"
  "\<lfloor>1 / numeral b :: rat\<rfloor> = 1 div numeral b"
  "\<lfloor>- (1 / numeral b) :: rat\<rfloor> = - 1 div numeral b"
  using floor_divide_of_int_eq [of "numeral a" "numeral b", where ?'a = rat]
    floor_divide_of_int_eq [of "- numeral a" "numeral b", where ?'a = rat]
    floor_divide_of_int_eq [of 1 "numeral b", where ?'a = rat]
    floor_divide_of_int_eq [of "- 1" "numeral b", where ?'a = rat]
  by simp_all

lemmas num_eval = round_double_def round_in_binade_def round_to_ulp_def pack_double_def
  floor_log_rat_def ceil_log_def floor_log.simps pow_int_def round_half_even_def
  floor_rat_numeral_div

lemmas str_eval = string_to_number_def numeric_literal_def signed_literal_def radix_literal_def
  parse_unsigned_decimal_def parse_fraction_def decimal_value_def parse_exponent_def
  parse_digits_def is_digit_def digit_val_def trim_def strip_space.simps white_space_def

lemmas out_eval = positive_to_string_def layout_digits_def exponent_text_def
  shortest_digits.simps with_point_def candidate_def nearer_def reads_back_def dec_digits.simps
  fixed_magnitude_def fixed_digits_def pad_left_def Let_def

lemma positive_to_string_2: "positive_to_string 2 = ''2''"
  by (simp add: out_eval num_eval)

lemma Number_12_50: "string_to_number ''12.50'' = Fin (25 / 2)"
  by (simp add: str_eval num_eval)

lemma Number_1250: "string_to_number ''1250'' = Fin 1250"
  by (simp add: str_eval num_eval)

lemma Number_abc: "string_to_number ''abc'' = NaN"
  by (simp add: str_eval)

lemma round_double_exact:
  "round_double 1250 = Fin 1250"
  "round_double 125000 = Fin 125000"
  "round_double (25 / 2) = Fin (25 / 2)"
  by (simp_all add: num_eval)

lemma toFixed_12_50: "toFixed 2 (Fin (25 / 2)) = ''12.50''"
  by (simp add: out_eval floor_rat_numeral_div)

section \<open>The table editor: the next row index\<close>
















section \<open>Multiple choice: toggling one option\<close>

lemma same_value_zero_eq: "same_value_zero a b \<Longrightarrow> a = b"
  by (cases a; cases b) auto

lemma same_value_zero_JStr [simp]: "same_value_zero x (JStr s) \<longleftrightarrow> x = JStr s"
  by (cases x) auto

lemma Array_includes_JStr: "Array_includes xs (JStr s) \<longleftrightarrow> JStr s \<in> set xs"
  by (auto simp: Array_includes_def)

lemma set_Set_add: "set (Set_add s v) = insert v (set s)"
  by (auto simp: Set_add_def Array_includes_def dest: same_value_zero_eq)

lemma set_fold_Set_add: "set (fold (\<lambda>v s. Set_add s v) xs acc) = set acc \<union> set xs"
  by (induction xs arbitrary: acc) (auto simp: set_Set_add)

lemma set_new_Set: "set (new_Set xs) = set xs"
  by (simp add: new_Set_def set_fold_Set_add)

lemma fold_Set_add_subseq:
  "\<exists>zs. fold (\<lambda>v s. Set_add s v) xs acc = acc @ zs \<and> subseq zs xs"
proof (induction xs arbitrary: acc)
  case Nil
  then show ?case by simp
next
  case (Cons x xs)
  from Cons.IH [of "Set_add acc x"] obtain zs
    where zs: "fold (\<lambda>v s. Set_add s v) xs (Set_add acc x) = Set_add acc x @ zs" "subseq zs xs"
    by blast
  show ?case
  proof (cases "Array_includes acc x")
    case True
    with zs show ?thesis by (auto simp: Set_add_def)
  next
    case False
    with zs have "fold (\<lambda>v s. Set_add s v) (x # xs) acc = acc @ (x # zs)" "subseq (x # zs) (x # xs)"
      by (auto simp: Set_add_def)
    then show ?thesis by blast
  qed
qed

lemma subseq_new_Set: "subseq (new_Set xs) xs"
  using fold_Set_add_subseq [of xs "[]"] by (auto simp: new_Set_def)

lemma fold_Set_add_distinct:
  "distinct (acc @ xs) \<Longrightarrow> fold (\<lambda>v s. Set_add s v) xs acc = acc @ xs"
proof (induction xs arbitrary: acc)
  case Nil
  then show ?case by simp
next
  case (Cons x xs)
  from Cons.prems have "x \<notin> set acc"
    by auto
  then have "\<not> Array_includes acc x"
    by (auto simp: Array_includes_def dest: same_value_zero_eq)
  then have add: "Set_add acc x = acc @ [x]"
    by (simp add: Set_add_def)
  from Cons.prems have "distinct ((acc @ [x]) @ xs)"
    by simp
  from Cons.IH [OF this] add show ?case
    by simp
qed

lemma new_Set_distinct: "distinct xs \<Longrightarrow> new_Set xs = xs"
  using fold_Set_add_distinct [of "[]" xs] by (simp add: new_Set_def)

lemma Array_includes_new_Set:
  "Array_includes (new_Set xs) (JStr s) \<longleftrightarrow> JStr s \<in> set xs"
  by (simp add: Array_includes_JStr set_new_Set)

lemma multi_select_toggle_position:
  "multi_select_toggle q opt c =
     JArr (if c then
             (if JStr (value opt) \<in> set (answer_array q) then new_Set (answer_array q)
              else new_Set (answer_array q) @ [JStr (value opt)])
           else filter (\<lambda>x. x \<noteq> JStr (value opt)) (new_Set (answer_array q)))"
  by (simp add: multi_select_toggle_def Set_add_def Set_delete_def Array_includes_new_Set)

text \<open>
  C5. Toggling the box of one option of a multiple choice question gives an array in
  which every value of the previous answer other than the toggled one is still present,
  in which these other values stand in the order they had in the previous answer, and
  which holds no other value. The array is in the order of selection, not in the order
  of the options list: a value that is switched on and was not selected is appended at
  the end, a value that is switched off is removed, and nothing else moves (a previous
  answer without repetitions is kept as it is). Read against the options list: the box
  of every other option shows what it showed before, the toggled box shows the new
  setting, and the selected options other than the toggled one, in the order of the
  options list, are the same before and after.
\<close>

theorem multi_select_toggle_keeps_others:
  "\<exists>ys. multi_select_toggle q opt c = JArr ys
     \<and> (\<forall>x \<in> set (answer_array q). x \<noteq> JStr (value opt) \<longrightarrow> x \<in> set ys)
     \<and> subseq (filter (\<lambda>x. x \<noteq> JStr (value opt)) ys) (answer_array q)
     \<and> (\<forall>x \<in> set ys. x \<noteq> JStr (value opt) \<longrightarrow> x \<in> set (answer_array q))
     \<and> (\<forall>p. value p \<noteq> value opt \<longrightarrow>
           checked (q\<lparr>answer := JArr ys\<rparr>) p = checked q p)
     \<and> checked (q\<lparr>answer := JArr ys\<rparr>) opt = c
     \<and> filter (\<lambda>p. value p \<noteq> value opt) (selected_options (q\<lparr>answer := JArr ys\<rparr>))
       = filter (\<lambda>p. value p \<noteq> value opt) (selected_options q)
     \<and> (c \<and> JStr (value opt) \<notin> set (answer_array q) \<longrightarrow>
          ys = new_Set (answer_array q) @ [JStr (value opt)])
     \<and> (c \<and> JStr (value opt) \<in> set (answer_array q) \<longrightarrow> ys = new_Set (answer_array q))
     \<and> (\<not> c \<longrightarrow> ys = filter (\<lambda>x. x \<noteq> JStr (value opt)) (new_Set (answer_array q)))
     \<and> subseq (new_Set (answer_array q)) (answer_array q)
     \<and> (distinct (answer_array q) \<longrightarrow> new_Set (answer_array q) = answer_array q)"
proof -
  let ?v = "JStr (value opt)"
  let ?next = "new_Set (answer_array q)"
  define ys where "ys = (if c then Set_add ?next ?v else Set_delete ?next ?v)"
  have m: "multi_select_toggle q opt c = JArr ys"
    by (simp add: multi_select_toggle_def ys_def)
  have others: "filter (\<lambda>x. x \<noteq> ?v) ys = filter (\<lambda>x. x \<noteq> ?v) ?next"
    by (simp add: ys_def Set_add_def Set_delete_def)
  have "subseq (filter (\<lambda>x. x \<noteq> ?v) ys) ?next"
    unfolding others by simp
  then have order: "subseq (filter (\<lambda>x. x \<noteq> ?v) ys) (answer_array q)"
    by (rule subseq_order.order_trans) (rule subseq_new_Set)
  have mem: "x \<in> set ys \<longleftrightarrow> x \<in> set (answer_array q)" if "x \<noteq> ?v" for x
    using that by (auto simp: ys_def set_Set_add set_new_Set Set_delete_def)
  have toggled: "?v \<in> set ys \<longleftrightarrow> c"
    by (auto simp: ys_def set_Set_add Set_delete_def)
  have disp: "checked (q\<lparr>answer := JArr ys\<rparr>) p = checked q p" if "value p \<noteq> value opt" for p
  proof -
    from that have ne: "JStr (value p) \<noteq> ?v" by simp
    show ?thesis
      using mem [OF ne]
      by (cases "answer q") (simp_all add: checked_def Array_includes_JStr answer_array_def)
  qed
  have shown: "checked (q\<lparr>answer := JArr ys\<rparr>) opt = c"
    using toggled by (simp add: checked_def Array_includes_JStr)
  have sel: "filter (\<lambda>p. value p \<noteq> value opt) (selected_options (q\<lparr>answer := JArr ys\<rparr>))
       = filter (\<lambda>p. value p \<noteq> value opt) (selected_options q)"
    unfolding selected_options_def filter_filter
    by (rule filter_cong) (auto simp: disp)
  from m have pos: "ys = (if c then
             (if ?v \<in> set (answer_array q) then ?next else ?next @ [?v])
           else filter (\<lambda>x. x \<noteq> ?v) ?next)"
    by (simp add: multi_select_toggle_position)
  show ?thesis
  proof (intro exI [of _ ys] conjI ballI allI impI)
    show "ys = ?next @ [?v]" if "c \<and> ?v \<notin> set (answer_array q)"
      using that pos by simp
    show "ys = ?next" if "c \<and> ?v \<in> set (answer_array q)"
      using that pos by simp
    show "ys = filter (\<lambda>x. x \<noteq> ?v) ?next" if "\<not> c"
      using that pos by simp
    show "subseq ?next (answer_array q)"
      by (rule subseq_new_Set)
    show "?next = answer_array q" if "distinct (answer_array q)"
      using that by (rule new_Set_distinct)
    show "multi_select_toggle q opt c = JArr ys" by (rule m)
    show "subseq (filter (\<lambda>x. x \<noteq> ?v) ys) (answer_array q)" by (rule order)
    show "checked (q\<lparr>answer := JArr ys\<rparr>) opt = c" by (rule shown)
    show "filter (\<lambda>p. value p \<noteq> value opt) (selected_options (q\<lparr>answer := JArr ys\<rparr>))
       = filter (\<lambda>p. value p \<noteq> value opt) (selected_options q)" by (rule sel)
  qed (simp_all add: mem disp)
qed

theorem multi_select_toggle_witness:
  "multi_select_toggle sample_multi (sample_options ! 1) True
     = JArr [JStr ''c'', JStr ''a'', JStr ''b'']
   \<and> answer_array sample_multi = [JStr ''c'', JStr ''a'']
   \<and> JStr (value (sample_options ! 1)) \<notin> set (answer_array sample_multi)
   \<and> distinct (answer_array sample_multi)
   \<and> multi_select_toggle sample_multi (sample_options ! 2) False = JArr [JStr ''a'']"
  using multi_select_toggle_keeps_others [of sample_multi "sample_options ! 1" True]
  by (simp add: multi_select_toggle_def sample_multi_def sample_options_def answer_array_def
      new_Set_def Set_add_def Set_delete_def Array_includes_def)

text \<open>
  The resulting array need not follow the options list: with the options a, b, c and
  the answer a, c, which is in their order, switching b on gives a, c, b.
\<close>

theorem multi_select_toggle_not_in_options_order:
  "in_options_order sample_multi_ac (answer_array sample_multi_ac)
   \<and> multi_select_toggle sample_multi_ac (sample_options ! 1) True
       = JArr [JStr ''a'', JStr ''c'', JStr ''b'']
   \<and> \<not> in_options_order sample_multi_ac [JStr ''a'', JStr ''c'', JStr ''b'']"
  by (simp add: in_options_order_def sample_multi_ac_def sample_multi_def sample_options_def
      answer_array_def multi_select_toggle_def new_Set_def Set_add_def Array_includes_def
      list_emb_code)


section \<open>Commit after remote success\<close>

text \<open>
  C1. Every edit is committed only after the remote call has succeeded. When the
  response carries an error, the rest of a change handler leaves the state of the page
  exactly as it is and ends with that error, and the rest of \<open>addRow\<close> leaves the draft
  exactly as it is; when it carries none, the answer is committed with
  \<open>mutateAnswer\<close>, respectively the new row is appended to the draft. The same holds
  for the whole handlers, for every question, every event and every answer of the remote
  side: one call is issued, and the local state changes only if it succeeds.
\<close>

theorem commit_only_after_remote_success:
  "(failure r = Some e \<longrightarrow>
      onChange_resume q v now r st = (Some e, st)
      \<and> addRow_resume newRow r rows = (Some e, rows))
   \<and> (failure r = None \<longrightarrow>
      onChange_resume q v now r st
        = (None, mutateAnswer (code q) (onChange_commit_value q v now) st)
      \<and> addRow_resume newRow r rows = (None, rows @ [newRow]))
   \<and> (onChange_value q ev = Some v \<and> failure (remote (UpsertAnswer formUUID (code q) v)) = Some e
        \<longrightarrow> onChange remote formUUID q ev now st
              = ([UpsertAnswer formUUID (code q) v], Some e, st))
   \<and> (onChange_value q ev = Some v \<and> failure (remote (UpsertAnswer formUUID (code q) v)) = None
        \<longrightarrow> onChange remote formUUID q ev now st
              = ([UpsertAnswer formUUID (code q) v], None,
                 mutateAnswer (code q) (onChange_commit_value q v now) st))
   \<and> (onChange_value q ev = None \<longrightarrow> onChange remote formUUID q ev now st = ([], None, st))
   \<and> (failure (remote (UpsertTableRow formUUID c (addRow_idx rows) (JObj []))) = Some e
        \<longrightarrow> addRow remote formUUID c rows
              = ([UpsertTableRow formUUID c (addRow_idx rows) (JObj [])], Some e, rows))
   \<and> (failure (remote (UpsertTableRow formUUID c (addRow_idx rows) (JObj []))) = None
        \<longrightarrow> addRow remote formUUID c rows
              = ([UpsertTableRow formUUID c (addRow_idx rows) (JObj [])], None,
                 rows @ [\<lparr>row_index = addRow_idx rows, row = JObj []\<rparr>]))"
  by (simp add: onChange_resume_def addRow_resume_def upsertAnswer_settle_def
      upsertTableRow_settle_def onChange_def onChange_call_def upsertAnswer_call_def
      addRow_def addRow_call_def upsertTableRow_call_def addRow_newRow_def)

theorem commit_only_after_remote_success_witness:
  "failure sample_failure = Some (RpcError ''timeout'')
   \<and> onChange_resume sample_text (JStr ''abcd'') ''abcd'' sample_failure sample_state
       = (Some (RpcError ''timeout''), sample_state)
   \<and> addRow_resume (addRow_newRow sample_rows) sample_failure sample_rows
       = (Some (RpcError ''timeout''), sample_rows)
   \<and> failure sample_success = None
   \<and> addRow_resume (addRow_newRow sample_rows) sample_success sample_rows
       = (None, sample_rows @ [\<lparr>row_index = Fin 1, row = JObj []\<rparr>])
   \<and> onChange_value sample_text (Input ''abcd'') = Some (JStr ''abcd'')
   \<and> onChange (\<lambda>c. sample_failure) ''f-1'' sample_text (Input ''abcd'') ''abcd'' sample_state
       = ([UpsertAnswer ''f-1'' ''q_text'' (JStr ''abcd'')], Some (RpcError ''timeout''), sample_state)"
  using commit_only_after_remote_success [of sample_failure "RpcError ''timeout''" sample_text
      "JStr ''abcd''" "''abcd''" sample_state "addRow_newRow sample_rows" sample_rows
      "Input ''abcd''" "\<lambda>c. sample_failure" "''f-1''"]
    commit_only_after_remote_success [of sample_success _ _ _ _ _ "addRow_newRow sample_rows"
      sample_rows]
  by (simp add: sample_failure_def sample_success_def sample_text_def onChange_value_def
      addRow_newRow_def addRow_idx_def sample_rows_def Math_max_def num_eval)

section \<open>Submitting\<close>

lemma handleSubmit_resume_not_ok:
  "failure r = None \<Longrightarrow> \<not> data_ok (data r) \<Longrightarrow>
   handleSubmit_resume formUUID lang r s
     = (s\<lparr>submitting := False\<rparr>,
        [''Campos obrigat'' @ [CHR 0xC3, CHR 0xB3] @ ''rios faltando: ''
           @ missing_required_text (data r)],
        None)"
  by (simp add: handleSubmit_resume_def)

lemma missing_two:
  "d = JObj [(''ok'', JBool False), (''missing_required'', JNum (Fin 2))] \<Longrightarrow>
   \<not> data_ok d \<and> missing_required_text d = ''2''"
  by (simp add: data_ok_def missing_required_text_def positive_to_string_2)







section \<open>The currency codec\<close>

text \<open>
  C10. For a currency question whose answer is \<^verbatim>\<open>{amount_cents: 0, currency: c}\<close>, the
  text shown in the input is empty, the same as for a null answer, and not a formatted
  zero: a zero amount is falsy in the condition of the display.
\<close>

theorem currency_zero_amount_shows_empty:
  assumes "answer q = JObj [(''amount_cents'', JNum (Fin 0)), (''currency'', c)]"
  shows "currency_amt q = [] \<and> currency_amt (q\<lparr>answer := JNull\<rparr>) = []
    \<and> currency_amt q = currency_amt (q\<lparr>answer := JNull\<rparr>)
    \<and> currency_amt q \<noteq> ''0,00''"
  using assms by (simp add: currency_amt_def)

theorem currency_zero_amount_witness:
  "answer (sample_currency\<lparr>answer :=
       JObj [(''amount_cents'', JNum (Fin 0)), (''currency'', JStr ''BRL'')]\<rparr>)
     = JObj [(''amount_cents'', JNum (Fin 0)), (''currency'', JStr ''BRL'')]
   \<and> currency_amt (sample_currency\<lparr>answer :=
       JObj [(''amount_cents'', JNum (Fin 0)), (''currency'', JStr ''BRL'')]\<rparr>) = []"
  using currency_zero_amount_shows_empty [of "sample_currency\<lparr>answer :=
       JObj [(''amount_cents'', JNum (Fin 0)), (''currency'', JStr ''BRL'')]\<rparr>" "JStr ''BRL''"]
  by simp

text \<open>
  C2. The code at the display text \<^verbatim>\<open>12,50\<close>: it is persisted as
  \<^verbatim>\<open>{amount_cents: 1250, currency: "BRL"}\<close>, and that answer is displayed as
  \<^verbatim>\<open>12.50\<close>, with a point, which is not the text that was encoded. Read by the same
  input again, the displayed text gives 125000 cents, since a point is dropped as a
  grouping separator.
\<close>

theorem currency_round_trip_shows_point:
  "currency_payload sample_currency ''12,50''
     = JObj [(''amount_cents'', JNum (Fin 1250)), (''currency'', JStr ''BRL'')]
   \<and> currency_amt (sample_currency\<lparr>answer := currency_payload sample_currency ''12,50''\<rparr>)
     = ''12.50''
   \<and> currency_amt (sample_currency\<lparr>answer := currency_payload sample_currency ''12,50''\<rparr>)
     \<noteq> ''12,50''
   \<and> currency_payload sample_currency ''12.50''
     = JObj [(''amount_cents'', JNum (Fin 125000)), (''currency'', JStr ''BRL'')]"
proof -
  have clean: "currency_clean ''12,50'' = ''12.50''" "currency_clean ''12.50'' = ''1250''"
    by (simp_all add: currency_clean_def)
  have enc: "currency_payload sample_currency ''12,50''
     = JObj [(''amount_cents'', JNum (Fin 1250)), (''currency'', JStr ''BRL'')]"
    by (simp add: currency_payload_def currency_num_def clean Number_12_50 round_double_exact floor_rat_numeral_div
        config_currency_def sample_currency_def)
  have enc': "currency_payload sample_currency ''12.50''
     = JObj [(''amount_cents'', JNum (Fin 125000)), (''currency'', JStr ''BRL'')]"
    by (simp add: currency_payload_def currency_num_def clean Number_1250 round_double_exact floor_rat_numeral_div
        config_currency_def sample_currency_def)
  have dec: "currency_amt (sample_currency\<lparr>answer := currency_payload sample_currency ''12,50''\<rparr>)
     = ''12.50''"
    unfolding enc by (simp add: currency_amt_def round_double_exact toFixed_12_50 del: toFixed.simps)
  from enc enc' dec show ?thesis
    by simp
qed

text \<open>
  C3. The code at the input \<^verbatim>\<open>abc\<close>: the cleaned text is \<^verbatim>\<open>abc\<close>, \<^verbatim>\<open>Number\<close> of
  it is \<open>NaN\<close> and not 0, and the persisted \<^verbatim>\<open>amount_cents\<close> is \<open>NaN\<close>. Only the
  empty input falls back to 0.
\<close>

theorem currency_non_numeric_is_NaN:
  "currency_clean ''abc'' = ''abc''
   \<and> currency_num ''abc'' = NaN
   \<and> currency_num ''abc'' \<noteq> Fin 0
   \<and> currency_payload sample_currency ''abc''
     = JObj [(''amount_cents'', JNum NaN), (''currency'', JStr ''BRL'')]
   \<and> currency_num [] = Fin 0"
proof -
  have clean: "currency_clean ''abc'' = ''abc''" "currency_clean [] = []"
    by (simp_all add: currency_clean_def)
  then show ?thesis
    by (simp add: currency_payload_def currency_num_def Number_abc config_currency_def
        sample_currency_def)
qed

section \<open>The guard of the submit action\<close>

lemma count_list_remove1_same:
  "x \<in> set xs \<Longrightarrow> count_list (remove1 x xs) x = count_list xs x - 1"
  by (induction xs) auto

lemma count_list_remove1_other:
  "x \<noteq> y \<Longrightarrow> count_list (remove1 y xs) x = count_list xs x"
  by (induction xs) auto

lemma count_list_pos: "x \<in> set xs \<Longrightarrow> 0 < count_list xs x"
  by (induction xs) auto

lemma submitting_mutateAnswer: "submitting (mutateAnswer c v st) = submitting st"
  by (simp add: mutateAnswer_def Let_def split: option.splits)

lemma submitting_setPayload: "submitting (setPayload d st) = submitting st"
  by (simp add: setPayload_def split: option.splits)

lemma submitting_load_resume: "submitting (load_resume r st) = submitting st"
  by (simp add: load_resume_def submitting_setPayload split: option.splits)

lemma submitting_onChange_resume:
  "submitting (snd (onChange_resume q v now r st)) = submitting st"
  by (simp add: onChange_resume_def submitting_mutateAnswer split: sum.splits)

lemma submitting_refetched: "submitting (handleSubmit_refetched r st) = submitting st"
  by (simp add: handleSubmit_refetched_def submitting_setPayload split: option.splits)

lemma handleSubmit_resume_next:
  "handleSubmit_resume formUUID lang r st = (st', msgs, next) \<Longrightarrow>
   submitting st' = False \<and> (next = None \<or> next = Some (GetFormPayload formUUID lang))"
  by (cases "failure r"; cases "data_ok (data r)") (auto simp: handleSubmit_resume_def)


lemma submit_in_flight_mount: "submit_in_flight (mount formUUID lang)"
  by (simp add: submit_in_flight_def mount_def load_begin_def init_page_def)

lemma submit_in_flight_step:
  assumes "step formUUID lang s s'" and "submit_in_flight s"
  shows "submit_in_flight s'"
  using assms
proof (cases rule: step.cases)
  case (load_response r)
  with assms(2) show ?thesis
    by (simp add: submit_in_flight_def submitting_load_resume count_list_remove1_other)
next
  case (edit p q ev v)
  with assms(2) show ?thesis
    by (simp add: submit_in_flight_def)
next
  case (edit_response q v now r)
  with assms(2) show ?thesis
    by (simp add: submit_in_flight_def submitting_onChange_resume count_list_remove1_other)
next
  case (click_submit p)
  then have "\<not> submitting (page s)"
    by (simp add: submit_disabled_def)
  with click_submit assms(2) show ?thesis
    by (simp add: submit_in_flight_def handleSubmit_begin_def)
next
  case (submit_response r st' msgs nxt)
  from submit_response(2) have pos: "0 < count_list (inflight s) PSubmit"
    by (rule count_list_pos)
  with assms(2) have one: "count_list (inflight s) PSubmit = 1"
    by (simp add: submit_in_flight_def split: if_splits)
  from handleSubmit_resume_next [OF submit_response(3)]
  have "submitting st' = False" by simp
  with submit_response one show ?thesis
    by (cases nxt) (simp_all add: submit_in_flight_def count_list_remove1_same)
next
  case (refetch_response r)
  with assms(2) show ?thesis
    by (simp add: submit_in_flight_def submitting_refetched count_list_remove1_other)
qed

lemma reachable_submit_in_flight:
  "reachable formUUID lang s \<Longrightarrow> submit_in_flight s"
  unfolding reachable_def
  by (induction rule: rtranclp_induct) (auto intro: submit_in_flight_mount submit_in_flight_step)

lemma render_FormView:
  "render st = FormView p \<Longrightarrow> current_payload st = Some p"
  by (auto simp: render_def render_payload_def split: if_splits option.splits)

text \<open>
  C8. In every state that the page can reach in which \<^verbatim>\<open>submitting\<close> is set, or a
  \<^verbatim>\<open>submit_form\<close> call is in flight, or the status of the form is \<^verbatim>\<open>submitted\<close>,
  no event issues a \<^verbatim>\<open>submit_form\<close> call: whatever happens next, the calls of
  \<^verbatim>\<open>submit_form\<close> issued so far stay the same. In such a state the submit button, if
  it is on the page, is disabled.
\<close>

theorem no_submit_call_while_submitted_or_in_flight:
  assumes "reachable formUUID lang s"
    and "submitting (page s) \<or> PSubmit \<in> set (inflight s)
      \<or> (\<exists>p. current_payload (page s) = Some p \<and> status (form p) = ''submitted'')"
    and "step formUUID lang s s'"
  shows "submit_calls s' = submit_calls s
    \<and> (\<forall>p. render (page s) = FormView p \<longrightarrow> submit_disabled (page s) p)"
proof -
  from assms(1) have inv: "submit_in_flight s"
    by (rule reachable_submit_in_flight)
  have sub: "submitting (page s)" if "PSubmit \<in> set (inflight s)"
    using count_list_pos [OF that] inv by (simp add: submit_in_flight_def split: if_splits)
  have disabled: "submit_disabled (page s) p" if "render (page s) = FormView p" for p
    using render_FormView [OF that] assms(2) sub by (auto simp: submit_disabled_def)
  from assms(3) have "submit_calls s' = submit_calls s"
  proof (cases rule: step.cases)
    case (load_response r)
    then show ?thesis by (simp add: submit_calls_def)
  next
    case (edit p q ev v)
    then show ?thesis
      by (simp add: submit_calls_def onChange_call_def upsertAnswer_call_def)
  next
    case (edit_response q v now r)
    then show ?thesis by (simp add: submit_calls_def)
  next
    case (click_submit p)
    with disabled [of p] show ?thesis by simp
  next
    case (submit_response r st' msgs nxt)
    from handleSubmit_resume_next [OF submit_response(3)]
    have "nxt = None \<or> nxt = Some (GetFormPayload formUUID lang)" by simp
    with submit_response(1) show ?thesis
      by (auto simp: submit_calls_def)
  next
    case (refetch_response r)
    then show ?thesis by (simp add: submit_calls_def)
  qed
  with disabled show ?thesis by blast
qed

lemma sample_reachable: "reachable ''f-1'' ''pt-BR'' sample_submitting"
proof -
  let ?r = "\<lparr>data = Some sample_payload, failure = None\<rparr>"
  let ?m = "mount ''f-1'' ''pt-BR''"
  have m: "?m = \<lparr>page = init_page, inflight = [PLoad],
      issued = [GetFormPayload ''f-1'' ''pt-BR''], alerts = []\<rparr>"
    by (simp add: mount_def load_begin_def init_page_def)
  have "step ''f-1'' ''pt-BR'' ?m
      (?m\<lparr>page := load_resume ?r (page ?m), inflight := remove1 PLoad (inflight ?m)\<rparr>)"
    by (rule step.load_response) (simp add: m)
  moreover have "?m\<lparr>page := load_resume ?r (page ?m), inflight := remove1 PLoad (inflight ?m)\<rparr>
      = sample_loaded"
    by (simp add: m sample_loaded_def load_resume_def setPayload_def init_page_def
        sample_state_def)
  ultimately have s1: "step ''f-1'' ''pt-BR'' ?m sample_loaded"
    by simp
  have view: "render (page sample_loaded) = FormView sample_payload"
    by (simp add: sample_loaded_def sample_state_def render_def render_payload_def
        current_payload_def)
  have enabled: "\<not> submit_disabled (page sample_loaded) sample_payload"
    by (simp add: sample_loaded_def sample_state_def submit_disabled_def sample_payload_def
        sample_form_def)
  have "step ''f-1'' ''pt-BR'' sample_loaded
      (sample_loaded\<lparr>page := fst (handleSubmit_begin ''f-1'' (page sample_loaded)),
          inflight := inflight sample_loaded @ [PSubmit],
          issued := issued sample_loaded
            @ [snd (handleSubmit_begin ''f-1'' (page sample_loaded))]\<rparr>)"
    using view enabled by (rule step.click_submit)
  moreover have "sample_loaded\<lparr>page := fst (handleSubmit_begin ''f-1'' (page sample_loaded)),
          inflight := inflight sample_loaded @ [PSubmit],
          issued := issued sample_loaded
            @ [snd (handleSubmit_begin ''f-1'' (page sample_loaded))]\<rparr> = sample_submitting"
    by (simp add: sample_loaded_def sample_submitting_def handleSubmit_begin_def)
  ultimately have s2: "step ''f-1'' ''pt-BR'' sample_loaded sample_submitting"
    by simp
  from s1 s2 show ?thesis
    unfolding reachable_def by (meson rtranclp.rtrancl_into_rtrancl rtranclp.rtrancl_refl)
qed


lemma sample_step: "step ''f-1'' ''pt-BR'' sample_submitting sample_rejected"
proof -
  have two: "\<not> data_ok (data sample_not_ok)" "missing_required_text (data sample_not_ok) = ''2''"
    using missing_two [of "data sample_not_ok"] by (simp_all add: sample_not_ok_def)
  have "failure sample_not_ok = None"
    by (simp add: sample_not_ok_def)
  from handleSubmit_resume_not_ok [OF this two(1), of "''f-1''" "''pt-BR''" "page sample_submitting"]
  have res: "handleSubmit_resume ''f-1'' ''pt-BR'' sample_not_ok (page sample_submitting)
      = (sample_state, [''Campos obrigat'' @ [CHR 0xC3, CHR 0xB3] @ ''rios faltando: 2''], None)"
    by (simp add: two(2) sample_submitting_def sample_state_def)
  have "PSubmit \<in> set (inflight sample_submitting)"
    by (simp add: sample_submitting_def)
  from step.submit_response [OF this res]
  show ?thesis
    by (simp add: sample_submitting_def sample_rejected_def)
qed

theorem no_submit_call_witness:
  "reachable ''f-1'' ''pt-BR'' sample_submitting
   \<and> submitting (page sample_submitting)
   \<and> step ''f-1'' ''pt-BR'' sample_submitting sample_rejected
   \<and> submit_calls sample_rejected = submit_calls sample_submitting
   \<and> submit_calls sample_submitting = [SubmitForm ''f-1'']"
proof -
  have sub: "submitting (page sample_submitting)"
    by (simp add: sample_submitting_def)
  from no_submit_call_while_submitted_or_in_flight [OF sample_reachable _ sample_step] sub
  have "submit_calls sample_rejected = submit_calls sample_submitting"
    by blast
  with sample_reachable sample_step sub show ?thesis
    by (simp add: submit_calls_def sample_submitting_def)
qed

end
